theory Spec2Isabelle
  imports Complex_Main "HOL-Library.Word"
begin

section \<open>Placeholder image generator: request validation, layout, rendering, caching\<close>

text \<open>
  A Go \<open>string\<close> is a sequence of bytes; it is modelled as \<^typ>\<open>string\<close>, a list of
  8-bit characters. Go's \<open>int\<close> is modelled as \<^typ>\<open>int\<close>: every integer that reaches an
  arithmetic operation has passed the range check of \<open>ParseSize\<close>. Go's \<open>float64\<close> is
  modelled by exact arithmetic on \<^typ>\<open>real\<close>, the decimal constants of the source being
  the rationals they denote.
\<close>

subsection \<open>Data model (types.go, handler.go)\<close>

record ImageRequest =
  Width :: int
  Height :: int
  Type :: string
  BgColor :: string
  FgColor :: string
  Text :: string

record ImageSize =
  size_Width :: int
  size_Height :: int

record RequestQueryParams =
  params_Size :: string
  params_Bg :: string
  params_Fg :: string
  params_Text :: string

datatype num_error = ErrSyntax | ErrRange

datatype error =
    InvalidSizeFormat
  | InvalidWidth
  | InvalidHeight
  | SizeOutOfRange
  | UnsupportedImageType string
  | InvalidBackgroundColor string
  | InvalidForegroundColor string
  | InvalidHexColorLength string
  | NumError num_error
  | EncoderError

definition MaxImageSize :: int where
  "MaxImageSize = 3000"

definition DefaultBg :: string where
  "DefaultBg = ''cccccc''"

definition DefaultFg :: string where
  "DefaultFg = ''666666''"

definition DefaultType :: string where
  "DefaultType = ''png''"

subsection \<open>Library functions used by the validator (strconv, regexp, fmt)\<close>

definition is_digit :: "char \<Rightarrow> bool" where
  "is_digit c = (48 \<le> (of_char c :: nat) \<and> (of_char c :: nat) \<le> 57)"

definition is_hex_digit :: "char \<Rightarrow> bool" where
  "is_hex_digit c =
     (let b = (of_char c :: nat)
      in (97 \<le> b \<and> b \<le> 102) \<or> (65 \<le> b \<and> b \<le> 70) \<or> (48 \<le> b \<and> b \<le> 57))"

text \<open>The value of a string of decimal digits, most significant digit first.\<close>

definition dec_value :: "string \<Rightarrow> nat" where
  "dec_value ds = foldl (\<lambda>n c. n * 10 + ((of_char c :: nat) - 48)) 0 ds"

text \<open>
  \<open>strconv.Atoi\<close> on a 64-bit platform: an optional sign, then one or more decimal digits;
  a value outside the range of \<open>int\<close> is a range error.
\<close>

definition Atoi :: "string \<Rightarrow> num_error + int" where
  "Atoi s =
     (let neg = (s \<noteq> [] \<and> hd s = CHR ''-'');
          ds = (if s \<noteq> [] \<and> (hd s = CHR ''-'' \<or> hd s = CHR ''+'') then tl s else s)
      in if ds = [] \<or> \<not> list_all is_digit ds then Inl ErrSyntax
         else let v = (if neg then - int (dec_value ds) else int (dec_value ds))
              in if v < - (2 ^ 63) \<or> 2 ^ 63 - 1 < v then Inl ErrRange else Inr v)"

text \<open>
  The digit value \<open>strconv.ParseUint\<close> gives a byte: \<open>0-9\<close>, then letters of either case
  from 10 on.
\<close>

definition digit_val :: "char \<Rightarrow> nat option" where
  "digit_val c =
     (let b = (of_char c :: nat)
      in if 48 \<le> b \<and> b \<le> 57 then Some (b - 48)
         else if 97 \<le> b \<and> b \<le> 122 then Some (b - 97 + 10)
         else if 65 \<le> b \<and> b \<le> 90 then Some (b - 65 + 10)
         else None)"

fun ParseUint_loop :: "nat \<Rightarrow> nat \<Rightarrow> nat \<Rightarrow> string \<Rightarrow> num_error + nat" where
  "ParseUint_loop base maxVal n [] = Inr n"
| "ParseUint_loop base maxVal n (c # cs) =
     (case digit_val c of
        None \<Rightarrow> Inl ErrSyntax
      | Some d \<Rightarrow>
          if base \<le> d then Inl ErrSyntax
          else if maxVal < n * base + d then Inl ErrRange
          else ParseUint_loop base maxVal (n * base + d) cs)"

text \<open>\<open>strconv.ParseUint(s, base, bitSize)\<close> for an explicit base between 2 and 36.\<close>

definition ParseUint :: "string \<Rightarrow> nat \<Rightarrow> nat \<Rightarrow> num_error + nat" where
  "ParseUint s base bitSize =
     (if s = [] then Inl ErrSyntax else ParseUint_loop base (2 ^ bitSize - 1) 0 s)"

text \<open>The verb \<open>%d\<close> of \<open>fmt.Sprintf\<close> on an \<open>int\<close>.\<close>

definition digit_char :: "nat \<Rightarrow> char" where
  "digit_char d = char_of (48 + d)"

fun digits_of :: "nat \<Rightarrow> string" where
  "digits_of n = (if n < 10 then [digit_char n] else digits_of (n div 10) @ [digit_char (n mod 10)])"

declare digits_of.simps [simp del]

definition itoa :: "int \<Rightarrow> string" where
  "itoa i = (if i < 0 then CHR ''-'' # digits_of (nat (- i)) else digits_of (nat i))"

text \<open>
  \<open>sizeRegex.FindStringSubmatch\<close> for the pattern \<^verbatim>\<open>^(\d+)x(\d+)$\<close>: the whole match and
  the two groups, or no slice at all. In Go's syntax \<^verbatim>\<open>\d\<close> is an ASCII digit and \<^verbatim>\<open>$\<close>
  is the end of the text.
\<close>

definition sizeRegex_FindStringSubmatch :: "string \<Rightarrow> string list" where
  "sizeRegex_FindStringSubmatch s =
     (let a = takeWhile is_digit s; r = dropWhile is_digit s
      in case r of
           [] \<Rightarrow> []
         | c # b \<Rightarrow> if a \<noteq> [] \<and> c = CHR ''x'' \<and> b \<noteq> [] \<and> list_all is_digit b then [s, a, b] else [])"

text \<open>\<open>colorRegex.MatchString\<close> for the pattern \<^verbatim>\<open>^[a-fA-F0-9]{6}$\<close>.\<close>

definition colorRegex_MatchString :: "string \<Rightarrow> bool" where
  "colorRegex_MatchString s = (length s = 6 \<and> list_all is_hex_digit s)"

subsection \<open>The validator (types.go)\<close>

definition validTypes :: "string \<rightharpoonup> bool" where
  "validTypes = [''png'' \<mapsto> True, ''gif'' \<mapsto> True, ''jpg'' \<mapsto> True, ''jpeg'' \<mapsto> True,
     ''webp'' \<mapsto> True]"

definition ParseSize :: "string \<Rightarrow> error + ImageSize" where
  "ParseSize sizeStr =
     (let matches = sizeRegex_FindStringSubmatch sizeStr
      in if length matches \<noteq> 3 then Inl InvalidSizeFormat
         else case Atoi (matches ! 1) of
                Inl _ \<Rightarrow> Inl InvalidWidth
              | Inr width \<Rightarrow>
                  (case Atoi (matches ! 2) of
                     Inl _ \<Rightarrow> Inl InvalidHeight
                   | Inr height \<Rightarrow>
                       if width \<le> 0 \<or> height \<le> 0 \<or> MaxImageSize < width \<or> MaxImageSize < height
                       then Inl SizeOutOfRange
                       else Inr \<lparr>size_Width = width, size_Height = height\<rparr>))"

text \<open>
  \<open>strings.ToLower\<close> is library code covering all of Unicode; the model takes it as the
  parameter \<open>ToLower\<close>. A Go map read at a missing key gives the zero value \<open>false\<close>.
\<close>

definition ValidateType :: "(string \<Rightarrow> string) \<Rightarrow> string \<Rightarrow> bool" where
  "ValidateType ToLower imageType =
     (case validTypes (ToLower imageType) of None \<Rightarrow> False | Some b \<Rightarrow> b)"

definition ValidateColor :: "string \<Rightarrow> bool" where
  "ValidateColor color = (if color = [] then True else colorRegex_MatchString color)"

definition applyDefault :: "string \<Rightarrow> string \<Rightarrow> string" where
  "applyDefault v defaultValue = (if v = [] then defaultValue else v)"

definition NewImageRequest ::
  "(string \<Rightarrow> string) \<Rightarrow> string \<Rightarrow> string \<Rightarrow> RequestQueryParams \<Rightarrow> error + ImageRequest" where
  "NewImageRequest ToLower sizeStr imageType p =
     (case ParseSize sizeStr of
        Inl e \<Rightarrow> Inl e
      | Inr sz \<Rightarrow>
          let imageType = (if imageType = [] then DefaultType else imageType)
          in if \<not> ValidateType ToLower imageType then Inl (UnsupportedImageType imageType)
             else let bg = applyDefault (params_Bg p) DefaultBg
                  in if \<not> ValidateColor bg then Inl (InvalidBackgroundColor bg)
                     else let fg = applyDefault (params_Fg p) DefaultFg
                          in if \<not> ValidateColor fg then Inl (InvalidForegroundColor fg)
                             else let text = applyDefault (params_Text p)
                                    (itoa (size_Width sz) @ ''x'' @ itoa (size_Height sz))
                                  in Inr \<lparr>Width = size_Width sz, Height = size_Height sz,
                                          Type = ToLower imageType, BgColor = bg, FgColor = fg,
                                          Text = text\<rparr>)"

text \<open>The errors of the validator that report a bad size token.\<close>

definition is_InvalidSize :: "error \<Rightarrow> bool" where
  "is_InvalidSize e = (e = InvalidSizeFormat \<or> e = InvalidWidth \<or> e = InvalidHeight \<or> e = SizeOutOfRange)"

text \<open>The lower-casing of ASCII letters, the part of \<open>strings.ToLower\<close> a concrete run needs.\<close>

definition ascii_lower :: "string \<Rightarrow> string" where
  "ascii_lower s =
     map (\<lambda>c. if 65 \<le> (of_char c :: nat) \<and> (of_char c :: nat) \<le> 90
              then char_of ((of_char c :: nat) + 32) else c) s"

subsection \<open>Library functions used by the renderer (unicode/utf8)\<close>

definition in_range :: "char \<Rightarrow> nat \<Rightarrow> nat \<Rightarrow> bool" where
  "in_range c lo hi = (lo \<le> (of_char c :: nat) \<and> (of_char c :: nat) \<le> hi)"

text \<open>
  The width of the well-formed UTF-8 sequence at the head of a string, after the tables
  \<open>first\<close> and \<open>acceptRanges\<close> of package \<open>utf8\<close>: the lead byte fixes the width and the
  range of the second byte, every later byte lies in \<open>0x80..0xBF\<close>. \<open>None\<close> where the
  decoder reports an invalid byte (an encoding error of width 1).
\<close>

fun rune_size :: "string \<Rightarrow> nat option" where
  "rune_size [] = None"
| "rune_size (c # cs) =
     (let b = (of_char c :: nat)
      in if b < 0x80 then Some 1
         else if b < 0xC2 then None
         else if b < 0xE0 then
           (case cs of
              c1 # _ \<Rightarrow> if in_range c1 0x80 0xBF then Some 2 else None
            | _ \<Rightarrow> None)
         else if b < 0xF0 then
           (case cs of
              c1 # c2 # _ \<Rightarrow>
                if in_range c1 (if b = 0xE0 then 0xA0 else 0x80) (if b = 0xED then 0x9F else 0xBF)
                   \<and> in_range c2 0x80 0xBF
                then Some 3 else None
            | _ \<Rightarrow> None)
         else if b < 0xF5 then
           (case cs of
              c1 # c2 # c3 # _ \<Rightarrow>
                if in_range c1 (if b = 0xF0 then 0x90 else 0x80) (if b = 0xF4 then 0x8F else 0xBF)
                   \<and> in_range c2 0x80 0xBF \<and> in_range c3 0x80 0xBF
                then Some 4 else None
            | _ \<Rightarrow> None)
         else None)"

declare rune_size.simps(2) [simp del]

text \<open>\<open>utf8.RuneCountInString\<close>: an invalid byte counts as one rune of width 1.\<close>

fun RuneCountInString :: "string \<Rightarrow> nat" where
  "RuneCountInString [] = 0"
| "RuneCountInString (c # cs) =
     Suc (RuneCountInString (drop ((case rune_size (c # cs) of None \<Rightarrow> 1 | Some k \<Rightarrow> k) - 1) cs))"

text \<open>\<open>utf8.ValidString\<close>: false at the first invalid byte.\<close>

fun ValidString :: "string \<Rightarrow> bool" where
  "ValidString [] = True"
| "ValidString (c # cs) =
     (case rune_size (c # cs) of
        None \<Rightarrow> False
      | Some k \<Rightarrow> ValidString (drop (k - 1) cs))"

subsection \<open>Layout (calculateOptimalFontSize)\<close>

definition calculateOptimalFontSize :: "int \<Rightarrow> int \<Rightarrow> string \<Rightarrow> real" where
  "calculateOptimalFontSize width height text =
     (let minDim = (if height < width then real_of_int height else real_of_int width);
          runeCount = real (RuneCountInString text);
          runeCount = (if runeCount = 0 then 1 else runeCount);
          targetWidthRatio = 0.85;
          avgCharWidth = (real_of_int width * targetWidthRatio) / runeCount;
          dimensionScale = minDim / 200.0;
          baseFontSize = avgCharWidth * 0.8 * dimensionScale;
          maxFontSize = minDim * 0.4;
          minFontSize = minDim * 0.02;
          minFontSize = (if minFontSize < 12.0 then 12.0 else minFontSize);
          maxFontSize = (if maxFontSize > 150.0 then 150.0 else maxFontSize);
          fontSize = baseFontSize;
          fontSize = (if fontSize > maxFontSize then maxFontSize else fontSize);
          fontSize = (if fontSize < minFontSize then minFontSize else fontSize)
      in fontSize)"

text \<open>
  The algorithm as the specification words it, step by step, with \<open>min\<close>, \<open>max\<close> and a
  clamp; clamping \<open>x\<close> between \<open>lo\<close> and \<open>hi\<close> caps \<open>x\<close> at \<open>hi\<close> and then raises the
  result to \<open>lo\<close>.
\<close>

definition clamp :: "real \<Rightarrow> real \<Rightarrow> real \<Rightarrow> real" where
  "clamp x lo hi = max lo (min x hi)"

definition spec_computeFontSize :: "int \<Rightarrow> int \<Rightarrow> string \<Rightarrow> real" where
  "spec_computeFontSize width height text =
     (let minDim = real_of_int (min width height);
          glyphCount = real (max 1 (RuneCountInString text));
          avgCharWidth = (real_of_int width * 0.85) / glyphCount;
          dimensionScale = minDim / 200.0;
          baseFontSize = avgCharWidth * 0.8 * dimensionScale;
          maxFontSize = min 150.0 (minDim * 0.4);
          minFontSize = max 12.0 (minDim * 0.02)
      in clamp baseFontSize minFontSize maxFontSize)"

subsection \<open>Font faces and the font pool (font pool source)\<close>

text \<open>
  A face is bound to one point size and one resolution. Parsing the embedded font happens
  once (\<open>fontOnce\<close>); its outcome \<open>fontParseErr\<close> and the outcome of
  \<open>opentype.NewFace\<close> belong to the library and are given by the environment.
\<close>

record Face =
  face_Size :: real
  face_DPI :: real

datatype font_error = FontParseError | NewFaceError

record FontEnv =
  fontParseErr :: "font_error option"
  NewFace_fails :: "real \<Rightarrow> real \<Rightarrow> bool"

text \<open>The channel of faces with its capacity.\<close>

record FontPool =
  fonts :: "Face list"
  fonts_cap :: nat

definition FONT_POOL_SIZE :: nat where
  "FONT_POOL_SIZE = 32"

definition parseEmbeddedFont :: "FontEnv \<Rightarrow> real \<Rightarrow> real \<Rightarrow> font_error + Face" where
  "parseEmbeddedFont env fontSize dpi =
     (case fontParseErr env of
        Some e \<Rightarrow> Inl e
      | None \<Rightarrow>
          if NewFace_fails env fontSize dpi then Inl NewFaceError
          else Inr \<lparr>face_Size = fontSize, face_DPI = dpi\<rparr>)"

fun NewFontPool_loop :: "FontEnv \<Rightarrow> nat \<Rightarrow> FontPool \<Rightarrow> FontPool" where
  "NewFontPool_loop env 0 pool = pool"
| "NewFontPool_loop env (Suc n) pool =
     NewFontPool_loop env n
       (case parseEmbeddedFont env 24.0 72 of
          Inr face \<Rightarrow> pool\<lparr>fonts := fonts pool @ [face]\<rparr>
        | Inl _ \<Rightarrow> pool)"

definition NewFontPool :: "FontEnv \<Rightarrow> nat \<Rightarrow> FontPool" where
  "NewFontPool env n = NewFontPool_loop env n \<lparr>fonts = [], fonts_cap = n\<rparr>"

text \<open>\<open>GetFont\<close> reads no field of the pool; \<open>None\<close> is the nil face.\<close>

definition GetFont :: "FontEnv \<Rightarrow> FontPool \<Rightarrow> real \<Rightarrow> Face option" where
  "GetFont env fp fontSize =
     (case parseEmbeddedFont env fontSize 72 of
        Inr face \<Rightarrow> Some face
      | Inl _ \<Rightarrow> None)"

text \<open>\<open>PutFont\<close>: a send on the channel that is dropped when the channel is full.\<close>

definition PutFont :: "FontPool \<Rightarrow> Face option \<Rightarrow> FontPool" where
  "PutFont fp face =
     (case face of
        None \<Rightarrow> fp
      | Some f \<Rightarrow> if length (fonts fp) < fonts_cap fp then fp\<lparr>fonts := fonts fp @ [f]\<rparr> else fp)"

subsection \<open>Colours and the drawing context (generator source)\<close>

record RGBA =
  col_R :: "8 word"
  col_G :: "8 word"
  col_B :: "8 word"
  col_A :: "8 word"

definition parseHexColor :: "string \<Rightarrow> error + RGBA" where
  "parseHexColor hexColor =
     (if length hexColor \<noteq> 6 then Inl (InvalidHexColorLength hexColor)
      else case ParseUint (take 2 hexColor) 16 8 of
             Inl e \<Rightarrow> Inl (NumError e)
           | Inr r \<Rightarrow>
               (case ParseUint (take 2 (drop 2 hexColor)) 16 8 of
                  Inl e \<Rightarrow> Inl (NumError e)
                | Inr g \<Rightarrow>
                    (case ParseUint (take 2 (drop 4 hexColor)) 16 8 of
                       Inl e \<Rightarrow> Inl (NumError e)
                     | Inr b \<Rightarrow>
                         Inr \<lparr>col_R = of_nat r, col_G = of_nat g, col_B = of_nat b, col_A = 255\<rparr>)))"

text \<open>
  The drawing context of the graphics library is kept as the record of what the generator
  asked of it: the canvas size, the current colour, the colour the canvas was cleared
  with, the font selected, and the strings drawn with their anchors. The image returned
  by \<open>dc.Image()\<close> is that record. Measuring a string is the library's work and is the
  parameter \<open>MeasureString\<close> below.
\<close>

datatype FontSetting = DefaultFont | FaceSet Face | FaceLoaded string real

record Context =
  dc_width :: int
  dc_height :: int
  dc_color :: RGBA
  dc_cleared :: "RGBA option"
  dc_font :: FontSetting
  dc_drawn :: "(string \<times> real \<times> real \<times> real \<times> real) list"

definition NewContext :: "int \<Rightarrow> int \<Rightarrow> Context" where
  "NewContext w h =
     \<lparr>dc_width = w, dc_height = h,
      dc_color = \<lparr>col_R = 0, col_G = 0, col_B = 0, col_A = 0\<rparr>,
      dc_cleared = None, dc_font = DefaultFont, dc_drawn = []\<rparr>"

definition SetColor :: "Context \<Rightarrow> RGBA \<Rightarrow> Context" where
  "SetColor dc c = dc\<lparr>dc_color := c\<rparr>"

definition Clear :: "Context \<Rightarrow> Context" where
  "Clear dc = dc\<lparr>dc_cleared := Some (dc_color dc)\<rparr>"

definition SetFontFace :: "Context \<Rightarrow> Face \<Rightarrow> Context" where
  "SetFontFace dc f = dc\<lparr>dc_font := FaceSet f\<rparr>"

definition LoadFontFace :: "Context \<Rightarrow> string \<Rightarrow> real \<Rightarrow> Context" where
  "LoadFontFace dc path points = dc\<lparr>dc_font := FaceLoaded path points\<rparr>"

definition DrawStringAnchored :: "Context \<Rightarrow> string \<Rightarrow> real \<Rightarrow> real \<Rightarrow> real \<Rightarrow> real \<Rightarrow> Context" where
  "DrawStringAnchored dc s x y ax ay = dc\<lparr>dc_drawn := dc_drawn dc @ [(s, x, y, ax, ay)]\<rparr>"

subsection \<open>Encoders\<close>

text \<open>
  The four encoders are library code: \<open>Encode\<close> maps the encoder called, with its options,
  and the image to the bytes written to the buffer and the error returned. A \<open>nil\<close> byte
  slice is the empty string.
\<close>

datatype encoder = PngEncode | JpegEncode int | GifEncode "int option" | WebpEncode real

subsection \<open>The library the generator runs against\<close>

record Library =
  lib_fonts :: FontEnv
  lib_MeasureString :: "FontSetting \<Rightarrow> string \<Rightarrow> real \<times> real"
  lib_Encode :: "encoder \<Rightarrow> Context \<Rightarrow> string \<times> error option"
  lib_md5_Sum :: "string \<Rightarrow> 128 word"

subsection \<open>Rendering and encoding (createImage, encodeImage)\<close>

text \<open>
  \<open>createImage\<close> receives the request by pointer and the pool through the generator; it
  returns its result, the pool after the deferred \<open>PutFont\<close>, and the request as the
  caller finds it afterwards.
\<close>

definition createImage ::
  "Library \<Rightarrow> FontPool \<Rightarrow> ImageRequest \<Rightarrow> (error + Context) \<times> FontPool \<times> ImageRequest" where
  "createImage lib fp req =
     (let dc = NewContext (Width req) (Height req)
      in case parseHexColor (BgColor req) of
           Inl e \<Rightarrow> (Inl e, fp, req)
         | Inr bgColor \<Rightarrow>
             (let dc = Clear (SetColor dc bgColor)
              in case parseHexColor (FgColor req) of
                  Inl e \<Rightarrow> (Inl e, fp, req)
                | Inr fgColor \<Rightarrow>
                    let dc = SetColor dc fgColor;
                        fontSize = calculateOptimalFontSize (Width req) (Height req) (Text req);
                        fontFace = GetFont (lib_fonts lib) fp fontSize;
                        dc = (case fontFace of
                                Some f \<Rightarrow> SetFontFace dc f
                              | None \<Rightarrow> LoadFontFace dc [] fontSize);
                        req = (if \<not> ValidString (Text req) then req\<lparr>Text := ''Invalid UTF-8''\<rparr>
                               else req);
                        centerX = real_of_int (Width req) / 2;
                        textHeight = snd (lib_MeasureString lib (dc_font dc) (Text req));
                        visualOffset = textHeight * 0.15;
                        centerY = real_of_int (Height req) / 2 - visualOffset;
                        dc = DrawStringAnchored dc (Text req) centerX centerY 0.5 0.5
                    in (Inr dc, PutFont fp fontFace, req)))"

definition encodeImage :: "Library \<Rightarrow> Context \<Rightarrow> string \<Rightarrow> string \<times> error option" where
  "encodeImage lib img imageType =
     (if imageType = ''png'' then lib_Encode lib PngEncode img
      else if imageType = ''jpg'' \<or> imageType = ''jpeg'' then lib_Encode lib (JpegEncode 90) img
      else if imageType = ''gif'' then lib_Encode lib (GifEncode None) img
      else if imageType = ''webp'' then lib_Encode lib (WebpEncode 90) img
      else ([], Some (UnsupportedImageType imageType)))"

subsection \<open>The cache key (getCacheKey)\<close>

text \<open>The string handed to MD5, and the 32 hexadecimal digits of the 16-byte digest.\<close>

definition cacheKeyString :: "ImageRequest \<Rightarrow> string" where
  "cacheKeyString req =
     itoa (Width req) @ ''x'' @ itoa (Height req) @ ''_'' @ Type req @ ''_'' @ BgColor req
       @ ''_'' @ FgColor req @ ''_'' @ Text req"

definition hex_digit_char :: "nat \<Rightarrow> char" where
  "hex_digit_char d = (if d < 10 then char_of (48 + d) else char_of (87 + d))"

definition hex_byte :: "8 word \<Rightarrow> string" where
  "hex_byte b = [hex_digit_char (unat b div 16), hex_digit_char (unat b mod 16)]"

definition digest_bytes :: "128 word \<Rightarrow> 8 word list" where
  "digest_bytes w = map (\<lambda>i. ucast (drop_bit (8 * (15 - i)) w)) [0..<16]"

definition getCacheKey :: "Library \<Rightarrow> ImageRequest \<Rightarrow> string" where
  "getCacheKey lib req = concat (map hex_byte (digest_bytes (lib_md5_Sum lib (cacheKeyString req))))"

subsection \<open>The result cache\<close>

text \<open>
  Modelled from the spec: package \<open>cache\<close> of this repository (\<open>LruCache\<close>, \<open>New\<close>, \<open>Get\<close>,
  \<open>Set\<close>) is not among the sources. After section 4.6 of the specification: a bounded
  store evicting the least recently used entry; an entry older than the time to live is
  treated as absent on lookup though still resident; a hit refreshes the entry's recency;
  a miss changes nothing. The entries are kept most recently used first, and time is a
  count of seconds.
\<close>

record CacheEntry =
  entry_key :: string
  encodedBytes :: string
  insertedAt :: nat
  lastAccessedAt :: nat

record LruCache =
  entries :: "CacheEntry list"
  cache_size :: nat
  cache_age :: nat

definition MAX_CACHE_ITEMS :: nat where
  "MAX_CACHE_ITEMS = 10000"

definition CACHE_MAX_AGE :: nat where
  "CACHE_MAX_AGE = 3600"

definition cache_New :: "nat \<Rightarrow> nat \<Rightarrow> LruCache" where
  "cache_New n age = \<lparr>entries = [], cache_size = n, cache_age = age\<rparr>"

definition cache_Get :: "LruCache \<Rightarrow> string \<Rightarrow> nat \<Rightarrow> string option \<times> LruCache" where
  "cache_Get c k now =
     (case find (\<lambda>e. entry_key e = k) (entries c) of
        None \<Rightarrow> (None, c)
      | Some e \<Rightarrow>
          if cache_age c < now - lastAccessedAt e then (None, c)
          else (Some (encodedBytes e),
                c\<lparr>entries := e\<lparr>lastAccessedAt := now\<rparr> # filter (\<lambda>e. entry_key e \<noteq> k) (entries c)\<rparr>))"

definition cache_Set :: "LruCache \<Rightarrow> string \<Rightarrow> string \<Rightarrow> nat \<Rightarrow> LruCache" where
  "cache_Set c k b now =
     c\<lparr>entries :=
         take (cache_size c)
           (\<lparr>entry_key = k, encodedBytes = b, insertedAt = now, lastAccessedAt = now\<rparr>
            # filter (\<lambda>e. entry_key e \<noteq> k) (entries c))\<rparr>"

subsection \<open>The generator (GenerateImage)\<close>

record ImageGenerator =
  memoryCache :: LruCache
  fontPool :: FontPool

definition NewImageGenerator :: "Library \<Rightarrow> ImageGenerator" where
  "NewImageGenerator lib =
     \<lparr>memoryCache = cache_New MAX_CACHE_ITEMS CACHE_MAX_AGE,
      fontPool = NewFontPool (lib_fonts lib) FONT_POOL_SIZE\<rparr>"

text \<open>
  \<open>GenerateImage\<close> at time \<open>now\<close>: the result, the generator afterwards, and the request as
  the caller finds it afterwards. Only byte slices are ever stored in the cache, so the
  type assertion on a hit succeeds.
\<close>

definition GenerateImage ::
  "Library \<Rightarrow> nat \<Rightarrow> ImageGenerator \<Rightarrow> ImageRequest \<Rightarrow> (error + string) \<times> ImageGenerator \<times> ImageRequest" where
  "GenerateImage lib now ig req =
     (let cacheKey = getCacheKey lib req
      in case cache_Get (memoryCache ig) cacheKey now of
           (Some imageData, c) \<Rightarrow> (Inr imageData, ig\<lparr>memoryCache := c\<rparr>, req)
         | (None, c) \<Rightarrow>
             (case createImage lib (fontPool ig) req of
                (Inl e, fp, req') \<Rightarrow> (Inl e, ig\<lparr>memoryCache := c, fontPool := fp\<rparr>, req')
              | (Inr img, fp, req') \<Rightarrow>
                  (case encodeImage lib img (Type req') of
                     (data, Some e) \<Rightarrow> (Inl e, ig\<lparr>memoryCache := c, fontPool := fp\<rparr>, req')
                   | (data, None) \<Rightarrow>
                       (Inr data,
                        ig\<lparr>memoryCache := cache_Set c cacheKey data now, fontPool := fp\<rparr>, req'))))"

subsection \<open>The size tokens of the specification\<close>

text \<open>
  A size token is valid, in the words of the specification, when it is a group of digits,
  the letter \<open>x\<close> and a group of digits (the pattern \<^verbatim>\<open>^\d+x\d+$\<close>) and both groups
  denote numbers from 1 to 3000; \<open>size_token_valid a b\<close> says so of the token
  \<open>a @ ''x'' @ b\<close>.
\<close>

definition size_token_valid :: "string \<Rightarrow> string \<Rightarrow> bool" where
  "size_token_valid a b =
     (a \<noteq> [] \<and> b \<noteq> [] \<and> list_all is_digit a \<and> list_all is_digit b \<and>
      1 \<le> dec_value a \<and> dec_value a \<le> 3000 \<and> 1 \<le> dec_value b \<and> dec_value b \<le> 3000)"

subsection \<open>Sample inputs\<close>

text \<open>
  Concrete libraries and requests on which the theorems below are run: a library whose
  font parses and whose encoders succeed, one whose embedded font fails to parse, one
  whose encoders fail, the default request for \<open>300x200\<close>, and the same request with a
  text that is a single byte \<open>0xFF\<close>, which is not UTF-8.
\<close>

definition sample_fonts :: FontEnv where
  "sample_fonts = \<lparr>fontParseErr = None, NewFace_fails = (\<lambda>size dpi. False)\<rparr>"

definition sample_Library :: Library where
  "sample_Library =
     \<lparr>lib_fonts = sample_fonts,
      lib_MeasureString = (\<lambda>font s. (10 * real (length s), 20)),
      lib_Encode = (\<lambda>enc img. (''data'', None)),
      lib_md5_Sum = (\<lambda>s. of_nat (length s))\<rparr>"


definition failing_Library :: Library where
  "failing_Library = sample_Library\<lparr>lib_Encode := (\<lambda>enc img. (''da'', Some EncoderError))\<rparr>"

definition sample_request :: ImageRequest where
  "sample_request =
     \<lparr>Width = 300, Height = 200, Type = ''png'', BgColor = ''cccccc'', FgColor = ''666666'',
      Text = ''300x200''\<rparr>"

definition invalid_text_request :: ImageRequest where
  "invalid_text_request = sample_request\<lparr>Text := [CHR 0xFF]\<rparr>"

definition sample_params :: RequestQueryParams where
  "sample_params = \<lparr>params_Size = ''300x200'', params_Bg = [], params_Fg = [], params_Text = []\<rparr>"

definition sample_pool :: FontPool where
  "sample_pool = \<lparr>fonts = [\<lparr>face_Size = 24, face_DPI = 72\<rparr>, \<lparr>face_Size = 24, face_DPI = 72\<rparr>], fonts_cap = 2\<rparr>"

definition sample_generator :: ImageGenerator where
  "sample_generator = \<lparr>memoryCache = cache_New MAX_CACHE_ITEMS CACHE_MAX_AGE, fontPool = sample_pool\<rparr>"

section \<open>Layout: the font size\<close>

lemma clamp_as_ifs:
  "(if lo > (if x > hi then hi else x) then lo else (if x > hi then hi else x)) = clamp x lo hi"
  by (simp add: clamp_def min_def max_def)

text \<open>
  C1: for every width, height and text, \<open>calculateOptimalFontSize\<close> returns the value of
  the six-step algorithm of the specification (minimum dimension, glyph count at least 1,
  average character width, dimension scale, base size, clamp between \<open>max(12, 0.02 minDim)\<close>
  and \<open>min(150, 0.4 minDim)\<close>). Where the lower clamp bound exceeds the upper one, which
  is when \<open>0.4 minDim < 12\<close>, the result is the lower bound 12. Arithmetic is exact.
\<close>

theorem calculateOptimalFontSize_matches_spec:
  "calculateOptimalFontSize width height text = spec_computeFontSize width height text \<and>
   (real_of_int (min width height) * 0.4 < 12 \<longrightarrow> calculateOptimalFontSize width height text = 12)"
proof -
  have m: "(if height < width then real_of_int height else real_of_int width) = real_of_int (min width height)"
    by (simp add: min_def)
  have n: "(if real (RuneCountInString text) = 0 then 1 else real (RuneCountInString text))
            = real (max 1 (RuneCountInString text))"
    by (simp add: max_def)
  have lo: "(if a < 12.0 then 12.0 else a) = max 12.0 a" for a :: real
    by (simp add: max_def)
  have hi: "(if a > 150.0 then 150.0 else a) = min 150.0 a" for a :: real
    by (simp add: min_def)
  have eq: "calculateOptimalFontSize width height text = spec_computeFontSize width height text"
    unfolding calculateOptimalFontSize_def spec_computeFontSize_def Let_def m n lo hi
    by (simp only: clamp_as_ifs)
  have small: "calculateOptimalFontSize width height text = 12"
    if "real_of_int (min width height) * 0.4 < 12"
  proof -
    define m where "m = real_of_int (min width height)"
    define b where "b = real_of_int width * 0.85 / real (max 1 (RuneCountInString text)) * 0.8 * (m / 200.0)"
    from that have "m * 0.4 < 12" by (simp only: m_def)
    then have "min 150.0 (m * 0.4) < 12" and "max 12.0 (m * 0.02) = 12" by auto
    then have "clamp b (max 12.0 (m * 0.02)) (min 150.0 (m * 0.4)) = 12"
      unfolding clamp_def by linarith
    then show ?thesis
      unfolding eq spec_computeFontSize_def Let_def m_def b_def .
  qed
  from eq small show ?thesis by blast
qed

theorem calculateOptimalFontSize_matches_spec_witness:
  "real_of_int (min 20 20) * 0.4 < 12 \<and> calculateOptimalFontSize 20 20 ''20x20'' = 12
   \<and> spec_computeFontSize 20 20 ''20x20'' = 12"
  using calculateOptimalFontSize_matches_spec [of 20 20 "''20x20''"] by simp

section \<open>Runs on the sample inputs\<close>

lemma parseHexColor_cccccc:
  "parseHexColor ''cccccc'' = Inr \<lparr>col_R = 204, col_G = 204, col_B = 204, col_A = 255\<rparr>"
  by (simp add: parseHexColor_def ParseUint_def digit_val_def)

lemma parseHexColor_666666:
  "parseHexColor ''666666'' = Inr \<lparr>col_R = 102, col_G = 102, col_B = 102, col_A = 255\<rparr>"
  by (simp add: parseHexColor_def ParseUint_def digit_val_def)

lemma fontSize_invalid_text: "calculateOptimalFontSize 300 200 [CHR 0xFF] = 80"
  by (simp add: calculateOptimalFontSize_def Let_def rune_size.simps)

lemma createImage_invalid_text:
  "createImage sample_Library sample_pool invalid_text_request =
     (Inr \<lparr>dc_width = 300, dc_height = 200,
           dc_color = \<lparr>col_R = 102, col_G = 102, col_B = 102, col_A = 255\<rparr>,
           dc_cleared = Some \<lparr>col_R = 204, col_G = 204, col_B = 204, col_A = 255\<rparr>,
           dc_font = FaceSet \<lparr>face_Size = 80, face_DPI = 72\<rparr>,
           dc_drawn = [(''Invalid UTF-8'', 150, 97, 0.5, 0.5)]\<rparr>,
      sample_pool, invalid_text_request\<lparr>Text := ''Invalid UTF-8''\<rparr>)"
  by (simp add: createImage_def Let_def invalid_text_request_def sample_request_def
     parseHexColor_cccccc parseHexColor_666666 rune_size.simps fontSize_invalid_text
     GetFont_def parseEmbeddedFont_def sample_Library_def sample_fonts_def sample_pool_def
     PutFont_def NewContext_def SetColor_def Clear_def SetFontFace_def DrawStringAnchored_def)


lemma GenerateImage_failing:
  "GenerateImage failing_Library 0 sample_generator sample_request =
     (Inl EncoderError, sample_generator, sample_request)"
  by (simp add: GenerateImage_def createImage_def failing_Library_def sample_Library_def
     sample_request_def sample_pool_def parseHexColor_cccccc parseHexColor_666666 Let_def
     GetFont_def parseEmbeddedFont_def sample_fonts_def NewContext_def SetColor_def Clear_def
     SetFontFace_def DrawStringAnchored_def sample_generator_def cache_Get_def cache_New_def
     encodeImage_def PutFont_def rune_size.simps)




section \<open>The request after the core operations\<close>






section \<open>The cache after a failed generation\<close>

lemma cache_Get_miss: "cache_Get c k now = (None, c') \<Longrightarrow> c' = c"
  by (auto simp: cache_Get_def split: option.splits if_splits)

text \<open>
  C3: when \<open>GenerateImage\<close> returns an error (from \<open>createImage\<close> or from \<open>encodeImage\<close>),
  the lookup at the start of the call was a miss and the cache afterwards is the cache as
  that lookup left it, no \<open>Set\<close> having run; a miss leaving the cache as it was, the cache
  after the failed call is the cache before it.
\<close>

theorem GenerateImage_error_keeps_cache:
  "GenerateImage lib now ig req = (Inl e, ig', req') \<Longrightarrow>
     fst (cache_Get (memoryCache ig) (getCacheKey lib req) now) = None \<and>
     memoryCache ig' = snd (cache_Get (memoryCache ig) (getCacheKey lib req) now) \<and>
     memoryCache ig' = memoryCache ig"
  by (auto simp: GenerateImage_def Let_def split: prod.splits option.splits sum.splits
        dest: cache_Get_miss)

theorem GenerateImage_error_keeps_cache_witness:
  "GenerateImage failing_Library 0 sample_generator sample_request =
     (Inl EncoderError, sample_generator, sample_request) \<and>
   fst (cache_Get (memoryCache sample_generator) (getCacheKey failing_Library sample_request) 0) = None \<and>
   snd (cache_Get (memoryCache sample_generator) (getCacheKey failing_Library sample_request) 0)
     = memoryCache sample_generator"
  using GenerateImage_error_keeps_cache [OF GenerateImage_failing] GenerateImage_failing by simp

section \<open>Font faces\<close>

lemma NewFontPool_loop_faces:
  "\<forall>g\<in>set (fonts pool). face_Size g = 24 \<Longrightarrow>
   \<forall>g\<in>set (fonts (NewFontPool_loop env n pool)). face_Size g = 24"
proof (induction n arbitrary: pool)
  case 0
  then show ?case by simp
next
  case (Suc n)
  show ?case
    unfolding NewFontPool_loop.simps
    by (rule Suc.IH)
      (use Suc.prems in \<open>auto simp: parseEmbeddedFont_def split: sum.splits option.splits if_splits\<close>)
qed

text \<open>
  C6: \<open>GetFont\<close> returns nil only when the library fails (the embedded font did not parse,
  or no face could be built at the size); a face it returns has exactly the requested
  size, hence is none of the pooled faces of another size; the faces put in the pool by
  \<open>NewFontPool\<close> all have size 24, and for a requested size other than 24 the face
  returned is none of them.
\<close>

theorem GetFont_exact_size:
  "(GetFont env fp fontSize = None \<longleftrightarrow> fontParseErr env \<noteq> None \<or> NewFace_fails env fontSize 72) \<and>
   (\<forall>f. GetFont env fp fontSize = Some f \<longrightarrow>
      face_Size f = fontSize \<and> (\<forall>g\<in>set (fonts fp). face_Size g \<noteq> fontSize \<longrightarrow> f \<noteq> g)) \<and>
   (\<forall>f. fontSize \<noteq> 24 \<longrightarrow> GetFont env (NewFontPool env n) fontSize = Some f \<longrightarrow>
      f \<notin> set (fonts (NewFontPool env n)))"
proof -
  have size: "face_Size f = fontSize" if "GetFont env p fontSize = Some f" for f p
    using that by (auto simp: GetFont_def parseEmbeddedFont_def split: option.splits if_splits)
  have pool: "\<forall>g\<in>set (fonts (NewFontPool env n)). face_Size g = 24"
    unfolding NewFontPool_def by (rule NewFontPool_loop_faces) simp
  have none: "GetFont env fp fontSize = None \<longleftrightarrow> fontParseErr env \<noteq> None \<or> NewFace_fails env fontSize 72"
    by (auto simp: GetFont_def parseEmbeddedFont_def split: option.splits if_splits)
  from size pool none show ?thesis by blast
qed

theorem GetFont_exact_size_witness:
  "GetFont sample_fonts (NewFontPool sample_fonts 2) 50 = Some \<lparr>face_Size = 50, face_DPI = 72\<rparr> \<and>
   \<lparr>face_Size = 50, face_DPI = 72\<rparr> \<notin> set (fonts (NewFontPool sample_fonts 2)) \<and>
   fonts (NewFontPool sample_fonts 2) = [\<lparr>face_Size = 24, face_DPI = 72\<rparr>, \<lparr>face_Size = 24, face_DPI = 72\<rparr>]"
  using GetFont_exact_size [of sample_fonts "NewFontPool sample_fonts 2" 50 2]
  by (simp add: GetFont_def parseEmbeddedFont_def sample_fonts_def NewFontPool_def eval_nat_numeral)

section \<open>Rendering\<close>



text \<open>
  C8: whether \<open>createImage\<close> returns an error does not depend on the text of the request,
  so a text that is not valid UTF-8 is never the cause of an error. In the image
  returned, the one string drawn is the request's text when that is valid UTF-8 and
  \<open>"Invalid UTF-8"\<close> otherwise, and it is that string which was measured to place the
  anchor.
\<close>

theorem createImage_invalid_utf8_substituted:
  "isl (fst (createImage lib fp req)) = isl (fst (createImage lib fp (req\<lparr>Text := t\<rparr>))) \<and>
   (\<forall>dc. fst (createImage lib fp req) = Inr dc \<longrightarrow>
      (let shown = (if ValidString (Text req) then Text req else ''Invalid UTF-8'')
       in dc_drawn dc =
            [(shown, real_of_int (Width req) / 2,
              real_of_int (Height req) / 2 - snd (lib_MeasureString lib (dc_font dc) shown) * 0.15,
              0.5, 0.5)]))"
  by (auto simp: createImage_def Let_def DrawStringAnchored_def LoadFontFace_def SetFontFace_def
        SetColor_def Clear_def NewContext_def split: sum.splits option.splits)

theorem createImage_invalid_utf8_substituted_witness:
  "\<not> ValidString (Text invalid_text_request) \<and>
   fst (createImage sample_Library sample_pool invalid_text_request) =
     Inr \<lparr>dc_width = 300, dc_height = 200,
           dc_color = \<lparr>col_R = 102, col_G = 102, col_B = 102, col_A = 255\<rparr>,
           dc_cleared = Some \<lparr>col_R = 204, col_G = 204, col_B = 204, col_A = 255\<rparr>,
           dc_font = FaceSet \<lparr>face_Size = 80, face_DPI = 72\<rparr>,
           dc_drawn = [(''Invalid UTF-8'', 150, 97, 0.5, 0.5)]\<rparr> \<and>
   \<not> isl (fst (createImage sample_Library sample_pool (invalid_text_request\<lparr>Text := ''abc''\<rparr>)))"
  using createImage_invalid_utf8_substituted
    [of sample_Library sample_pool invalid_text_request "''abc''"]
  by (simp add: createImage_invalid_text)
     (simp add: invalid_text_request_def sample_request_def rune_size.simps)

section \<open>Encoding\<close>

text \<open>
  C9: \<open>encodeImage\<close> calls the PNG encoder (default options) for \<open>"png"\<close>, the JPEG encoder
  with quality 90 for \<open>"jpg"\<close> and \<open>"jpeg"\<close>, the GIF encoder with nil options for \<open>"gif"\<close>,
  the WebP encoder with quality 90 for \<open>"webp"\<close>, and for any other format string returns
  no bytes and an error.
\<close>

theorem encodeImage_dispatch:
  "encodeImage lib img ''png'' = lib_Encode lib PngEncode img \<and>
   encodeImage lib img ''jpg'' = lib_Encode lib (JpegEncode 90) img \<and>
   encodeImage lib img ''jpeg'' = lib_Encode lib (JpegEncode 90) img \<and>
   encodeImage lib img ''gif'' = lib_Encode lib (GifEncode None) img \<and>
   encodeImage lib img ''webp'' = lib_Encode lib (WebpEncode 90) img \<and>
   (ty \<notin> {''png'', ''jpg'', ''jpeg'', ''gif'', ''webp''} \<longrightarrow>
      encodeImage lib img ty = ([], Some (UnsupportedImageType ty)))"
  by (simp add: encodeImage_def)

theorem encodeImage_dispatch_witness:
  "''bmp'' \<notin> {''png'', ''jpg'', ''jpeg'', ''gif'', ''webp''} \<and>
   encodeImage sample_Library (NewContext 1 1) ''bmp'' = ([], Some (UnsupportedImageType ''bmp''))"
  using encodeImage_dispatch [of sample_Library "NewContext 1 1" "''bmp''"] by simp

section \<open>Validated requests\<close>

lemma is_hex_digit_val: "is_hex_digit c \<Longrightarrow> \<exists>d. digit_val c = Some d \<and> d < 16"
  by (auto simp: is_hex_digit_def digit_val_def Let_def)

lemma ParseUint_hex_pair:
  assumes "is_hex_digit a" "is_hex_digit b"
  shows "\<exists>v. ParseUint [a, b] 16 8 = Inr v"
proof -
  from assms obtain da db where d: "digit_val a = Some da" "da < 16" "digit_val b = Some db" "db < 16"
    using is_hex_digit_val by blast
  then show ?thesis by (simp add: ParseUint_def)
qed

lemma parseHexColor_valid:
  assumes "colorRegex_MatchString s"
  shows "\<exists>c. parseHexColor s = Inr c \<and> col_A c = 255"
proof -
  from assms have len: "length s = 6" and hex: "list_all is_hex_digit s"
    by (simp_all add: colorRegex_MatchString_def)
  from len obtain a b c d e f where s: "s = [a, b, c, d, e, f]"
    by (auto simp: length_Suc_conv eval_nat_numeral)
  from hex s have h: "is_hex_digit a" "is_hex_digit b" "is_hex_digit c" "is_hex_digit d"
    "is_hex_digit e" "is_hex_digit f" by simp_all
  obtain r where r: "ParseUint [a, b] 16 8 = Inr r" using ParseUint_hex_pair h by blast
  obtain g where g: "ParseUint [c, d] 16 8 = Inr g" using ParseUint_hex_pair h by blast
  obtain bl where bl: "ParseUint [e, f] 16 8 = Inr bl" using ParseUint_hex_pair h by blast
  show ?thesis by (simp add: parseHexColor_def s r g bl)
qed

lemma ParseSize_range:
  "ParseSize s = Inr sz \<Longrightarrow> 1 \<le> size_Width sz \<and> size_Width sz \<le> 3000 \<and> 1 \<le> size_Height sz \<and> size_Height sz \<le> 3000"
  by (auto simp: ParseSize_def Let_def MaxImageSize_def split: if_splits sum.splits)

lemma validTypes_dom: "validTypes t = Some True \<Longrightarrow> t \<in> {''png'', ''gif'', ''jpg'', ''jpeg'', ''webp''}"
  by (auto simp: validTypes_def split: if_splits)

lemma NewImageRequest_valid:
  assumes "NewImageRequest L s t p = Inr r"
  shows "1 \<le> Width r \<and> Width r \<le> 3000 \<and> 1 \<le> Height r \<and> Height r \<le> 3000 \<and>
     Type r \<in> {''png'', ''gif'', ''jpg'', ''jpeg'', ''webp''} \<and>
     colorRegex_MatchString (BgColor r) \<and> colorRegex_MatchString (FgColor r)"
proof -
  from assms obtain sz where sz: "ParseSize s = Inr sz"
    by (auto simp: NewImageRequest_def split: sum.splits)
  let ?t = "if t = [] then DefaultType else t"
  let ?bg = "applyDefault (params_Bg p) DefaultBg"
  let ?fg = "applyDefault (params_Fg p) DefaultFg"
  from assms sz have v: "ValidateType L ?t" "ValidateColor ?bg" "ValidateColor ?fg"
    and r: "Width r = size_Width sz" "Height r = size_Height sz" "Type r = L ?t"
       "BgColor r = ?bg" "FgColor r = ?fg"
    by (auto simp: NewImageRequest_def Let_def split: if_splits)
  have ne: "?bg \<noteq> []" "?fg \<noteq> []" by (auto simp: applyDefault_def DefaultBg_def DefaultFg_def)
  from v(1) have "validTypes (L ?t) = Some True"
    by (auto simp: ValidateType_def split: option.splits)
  then have ty: "Type r \<in> {''png'', ''gif'', ''jpg'', ''jpeg'', ''webp''}"
    unfolding r by (rule validTypes_dom)
  from v ne have "colorRegex_MatchString ?bg" "colorRegex_MatchString ?fg"
    by (auto simp: ValidateColor_def)
  with ParseSize_range [OF sz] ty r show ?thesis by simp
qed

text \<open>
  C10: in every request returned by a successful \<open>NewImageRequest\<close> the two colours are
  exactly six hexadecimal digits, \<open>parseHexColor\<close> succeeds on both with alpha 255, and
  \<open>createImage\<close> does not return an error on the request.
\<close>

theorem validated_colors_parse:
  "NewImageRequest L s t p = Inr req \<Longrightarrow>
     colorRegex_MatchString (BgColor req) \<and> colorRegex_MatchString (FgColor req) \<and>
     (\<exists>c. parseHexColor (BgColor req) = Inr c \<and> col_A c = 255) \<and>
     (\<exists>c. parseHexColor (FgColor req) = Inr c \<and> col_A c = 255) \<and>
     \<not> isl (fst (createImage lib fp req))"
proof -
  assume a: "NewImageRequest L s t p = Inr req"
  from NewImageRequest_valid [OF a]
  have m: "colorRegex_MatchString (BgColor req)" "colorRegex_MatchString (FgColor req)" by simp_all
  from parseHexColor_valid [OF m(1)] obtain c1 where c1: "parseHexColor (BgColor req) = Inr c1" "col_A c1 = 255" by blast
  from parseHexColor_valid [OF m(2)] obtain c2 where c2: "parseHexColor (FgColor req) = Inr c2" "col_A c2 = 255" by blast
  have "\<not> isl (fst (createImage lib fp req))"
    by (simp add: createImage_def Let_def c1 c2)
  with m c1 c2 show ?thesis by simp
qed

lemma NewImageRequest_sample:
  "NewImageRequest ascii_lower ''300x200'' [] sample_params = Inr sample_request"
  by (simp add: NewImageRequest_def ParseSize_def sizeRegex_FindStringSubmatch_def is_digit_def
        Atoi_def dec_value_def Let_def MaxImageSize_def DefaultType_def ValidateType_def
        validTypes_def ascii_lower_def sample_params_def applyDefault_def DefaultBg_def DefaultFg_def
        ValidateColor_def colorRegex_MatchString_def is_hex_digit_def itoa_def digits_of.simps
        digit_char_def sample_request_def char_of_def bit_Suc_0_iff)

theorem validated_colors_parse_witness:
  "NewImageRequest ascii_lower ''300x200'' [] sample_params = Inr sample_request \<and>
   parseHexColor (BgColor sample_request) = Inr \<lparr>col_R = 204, col_G = 204, col_B = 204, col_A = 255\<rparr> \<and>
   parseHexColor (FgColor sample_request) = Inr \<lparr>col_R = 102, col_G = 102, col_B = 102, col_A = 255\<rparr> \<and>
   \<not> isl (fst (createImage sample_Library sample_pool sample_request))"
  using validated_colors_parse [OF NewImageRequest_sample, of sample_Library sample_pool] NewImageRequest_sample
  by (simp add: sample_request_def parseHexColor_cccccc parseHexColor_666666)

section \<open>Validation of the size token\<close>

lemma not_digit_x: "\<not> is_digit CHR ''x''"
  by (simp add: is_digit_def)

lemma sizeRegex_match:
  assumes "a \<noteq> []" "b \<noteq> []" "list_all is_digit a" "list_all is_digit b"
  shows "sizeRegex_FindStringSubmatch (a @ ''x'' @ b) = [a @ ''x'' @ b, a, b]"
proof -
  from assms(3) have d: "\<And>c. c \<in> set a \<Longrightarrow> is_digit c" by (simp add: list_all_iff)
  have t: "takeWhile is_digit (a @ ''x'' @ b) = a"
    using d by (simp add: takeWhile_append2 not_digit_x)
  have r: "dropWhile is_digit (a @ ''x'' @ b) = CHR ''x'' # b"
    using d by (simp add: dropWhile_append2 not_digit_x)
  show ?thesis
    unfolding sizeRegex_FindStringSubmatch_def Let_def t r using assms by simp
qed

lemma sizeRegex_match_conv:
  assumes "length (sizeRegex_FindStringSubmatch s) = 3"
  shows "\<exists>a b. sizeRegex_FindStringSubmatch s = [s, a, b] \<and> s = a @ ''x'' @ b \<and> a \<noteq> [] \<and> b \<noteq> [] \<and>
     list_all is_digit a \<and> list_all is_digit b"
proof -
  let ?a = "takeWhile is_digit s"
  from assms obtain c b where r: "dropWhile is_digit s = c # b"
    by (cases "dropWhile is_digit s") (auto simp: sizeRegex_FindStringSubmatch_def)
  from assms r have p: "?a \<noteq> []" "c = CHR ''x''" "b \<noteq> []" "list_all is_digit b"
    by (auto simp: sizeRegex_FindStringSubmatch_def Let_def split: if_splits)
  have "s = ?a @ dropWhile is_digit s" by simp
  with r p have s: "s = ?a @ ''x'' @ b" by simp
  have da: "list_all is_digit ?a" by (auto simp: list_all_iff dest: set_takeWhileD)
  from r p have "sizeRegex_FindStringSubmatch s = [s, ?a, b]"
    by (simp add: sizeRegex_FindStringSubmatch_def Let_def)
  with s p da show ?thesis by blast
qed

lemma Atoi_digits:
  assumes "a \<noteq> []" "list_all is_digit a"
  shows "Atoi a = (if 2 ^ 63 - 1 < int (dec_value a) then Inl ErrRange else Inr (int (dec_value a)))"
proof -
  from assms obtain c cs where a: "a = c # cs" by (cases a) auto
  with assms have "is_digit c" by simp
  then have "c \<noteq> CHR ''-''" "c \<noteq> CHR ''+''" by (auto simp: is_digit_def)
  with assms a show ?thesis
    by (simp add: Atoi_def Let_def)
qed

lemma ParseSize_valid:
  assumes "size_token_valid a b"
  shows "ParseSize (a @ ''x'' @ b) = Inr \<lparr>size_Width = int (dec_value a), size_Height = int (dec_value b)\<rparr>"
proof -
  from assms have p: "a \<noteq> []" "b \<noteq> []" "list_all is_digit a" "list_all is_digit b"
    and v: "1 \<le> dec_value a" "dec_value a \<le> 3000" "1 \<le> dec_value b" "dec_value b \<le> 3000"
    by (simp_all add: size_token_valid_def)
  have m: "sizeRegex_FindStringSubmatch (a @ ''x'' @ b) = [a @ ''x'' @ b, a, b]"
    using p by (rule sizeRegex_match)
  from v have A: "Atoi a = Inr (int (dec_value a))" "Atoi b = Inr (int (dec_value b))"
    by (simp_all add: Atoi_digits p)
  show ?thesis
    unfolding ParseSize_def Let_def m using v by (simp add: A MaxImageSize_def)
qed

lemma ParseSize_Inr_conv:
  assumes "ParseSize s = Inr sz"
  shows "\<exists>a b. s = a @ ''x'' @ b \<and> size_token_valid a b"
proof -
  from assms have "length (sizeRegex_FindStringSubmatch s) = 3"
    by (auto simp: ParseSize_def Let_def split: if_splits)
  from sizeRegex_match_conv [OF this] obtain a b where
    m: "sizeRegex_FindStringSubmatch s = [s, a, b]" and s: "s = a @ ''x'' @ b"
    and p: "a \<noteq> []" "b \<noteq> []" "list_all is_digit a" "list_all is_digit b" by blast
  from assms have "1 \<le> dec_value a \<and> dec_value a \<le> 3000 \<and> 1 \<le> dec_value b \<and> dec_value b \<le> 3000"
    unfolding ParseSize_def Let_def m
    by (auto simp: Atoi_digits p MaxImageSize_def split: if_splits)
  with p have "size_token_valid a b" by (simp add: size_token_valid_def)
  with s show ?thesis by blast
qed

lemma ParseSize_error: "ParseSize s = Inl e \<Longrightarrow> is_InvalidSize e"
  by (auto simp: ParseSize_def Let_def is_InvalidSize_def split: if_splits sum.splits)

text \<open>
  C5: the size token is accepted exactly when it is valid. For a valid token
  \<open>a @ ''x'' @ b\<close>, \<open>NewImageRequest\<close> never fails with a size error, every request it
  returns has the width and height the two groups denote, and it does return a request
  when the format and the two colours validate as well. For every other token, whether
  not of the form digits-x-digits or with a group outside 1..3000, it fails with a size
  error.
\<close>

theorem NewImageRequest_size_validation:
  "(size_token_valid a b \<longrightarrow>
      (\<forall>e. NewImageRequest L (a @ ''x'' @ b) t p = Inl e \<longrightarrow> \<not> is_InvalidSize e) \<and>
      (\<forall>r. NewImageRequest L (a @ ''x'' @ b) t p = Inr r \<longrightarrow>
         Width r = int (dec_value a) \<and> Height r = int (dec_value b)) \<and>
      (ValidateType L (if t = [] then DefaultType else t) \<and>
       ValidateColor (applyDefault (params_Bg p) DefaultBg) \<and>
       ValidateColor (applyDefault (params_Fg p) DefaultFg) \<longrightarrow>
         (\<exists>r. NewImageRequest L (a @ ''x'' @ b) t p = Inr r))) \<and>
   ((\<nexists>a b. s = a @ ''x'' @ b \<and> size_token_valid a b) \<longrightarrow>
      (\<exists>e. NewImageRequest L s t p = Inl e \<and> is_InvalidSize e))"
proof (intro conjI impI)
  assume v: "size_token_valid a b"
  have ps: "ParseSize (a @ CHR ''x'' # b) = Inr \<lparr>size_Width = int (dec_value a), size_Height = int (dec_value b)\<rparr>"
    using ParseSize_valid [OF v] by simp
  show "\<forall>e. NewImageRequest L (a @ ''x'' @ b) t p = Inl e \<longrightarrow> \<not> is_InvalidSize e"
    by (auto simp: NewImageRequest_def ps Let_def is_InvalidSize_def split: if_splits)
  show "\<forall>r. NewImageRequest L (a @ ''x'' @ b) t p = Inr r \<longrightarrow>
         Width r = int (dec_value a) \<and> Height r = int (dec_value b)"
    by (auto simp: NewImageRequest_def ps Let_def split: if_splits)
  assume "ValidateType L (if t = [] then DefaultType else t) \<and>
       ValidateColor (applyDefault (params_Bg p) DefaultBg) \<and>
       ValidateColor (applyDefault (params_Fg p) DefaultFg)"
  then show "\<exists>r. NewImageRequest L (a @ ''x'' @ b) t p = Inr r"
    by (simp add: NewImageRequest_def ps Let_def)
next
  assume n: "\<nexists>a b. s = a @ ''x'' @ b \<and> size_token_valid a b"
  obtain e where e: "ParseSize s = Inl e"
    using n ParseSize_Inr_conv by (cases "ParseSize s") blast+
  then have "NewImageRequest L s t p = Inl e" by (simp add: NewImageRequest_def)
  with ParseSize_error [OF e] show "\<exists>e. NewImageRequest L s t p = Inl e \<and> is_InvalidSize e" by blast
qed

lemma size_token_300x200: "size_token_valid ''300'' ''200''"
  by (simp add: size_token_valid_def is_digit_def dec_value_def)

lemma ParseSize_abcx200: "ParseSize ''abcx200'' = Inl InvalidSizeFormat"
  by (simp add: ParseSize_def sizeRegex_FindStringSubmatch_def is_digit_def)

lemma ParseSize_3001: "ParseSize ''3001x200'' = Inl SizeOutOfRange"
  by (simp add: ParseSize_def sizeRegex_FindStringSubmatch_def is_digit_def Atoi_def dec_value_def MaxImageSize_def)

lemma ParseSize_huge: "ParseSize ''99999999999999999999x200'' = Inl InvalidWidth"
  by (simp add: ParseSize_def sizeRegex_FindStringSubmatch_def is_digit_def Atoi_def dec_value_def MaxImageSize_def)

lemma no_valid_split_3001: "\<nexists>a b. ''3001x200'' = a @ ''x'' @ b \<and> size_token_valid a b"
proof
  assume "\<exists>a b. ''3001x200'' = a @ ''x'' @ b \<and> size_token_valid a b"
  then obtain a b where s: "''3001x200'' = a @ ''x'' @ b" and v: "size_token_valid a b" by blast
  from ParseSize_valid [OF v] s ParseSize_3001 show False by simp
qed

theorem NewImageRequest_size_validation_witness:
  "size_token_valid ''300'' ''200'' \<and>
   NewImageRequest ascii_lower ''300x200'' [] sample_params = Inr sample_request \<and>
   Width sample_request = 300 \<and> Height sample_request = 200 \<and>
   NewImageRequest ascii_lower ''3001x200'' [] sample_params = Inl SizeOutOfRange \<and>
   is_InvalidSize SizeOutOfRange"
  using NewImageRequest_size_validation [of "''300''" "''200''" ascii_lower "[]" sample_params "''3001x200''"]
    size_token_300x200 no_valid_split_3001
  by (simp add: NewImageRequest_sample dec_value_def)
     (simp add: NewImageRequest_def ParseSize_3001 sample_request_def is_InvalidSize_def)

section \<open>The cache key\<close>




lemma digits_of_nonempty: "digits_of n \<noteq> []"
  by (subst digits_of.simps) simp












end
